theory Spec2Isabelle
  imports Main
begin

section \<open>SQL values\<close>

text \<open>
  A nullable column is an \<open>option\<close>, \<open>None\<close> being NULL. TIMESTAMP and DATETIME values
  are seconds on one clock. BOOLEAN expressions are three-valued: \<open>None\<close> is UNKNOWN.
  An INT column holds a signed 32-bit value; storing a value outside that range is
  rejected with an error (strict SQL mode, the default of the MariaDB 10.11 the setup
  guide asks for).
\<close>

type_synonym timestamp = nat

type_synonym sql_bool = "bool option"

datatype sql_error =
    OutOfRange
  | NullViolation
  | DuplicateKey
  | ForeignKeyViolation
  | UnknownColumn
  | NoSuchTable
  | SubqueryMultipleRows
  | SendFailed string

definition INT_MAX :: int where
  "INT_MAX = 2147483647"

definition INT_MIN :: int where
  "INT_MIN = - 2147483648"

definition int_in_range :: "int \<Rightarrow> bool" where
  "int_in_range v = (INT_MIN \<le> v \<and> v \<le> INT_MAX)"

definition COALESCE :: "'a option \<Rightarrow> 'a \<Rightarrow> 'a" where
  "COALESCE x d = (case x of None \<Rightarrow> d | Some v \<Rightarrow> v)"

definition sql_and :: "sql_bool \<Rightarrow> sql_bool \<Rightarrow> sql_bool" where
  "sql_and a b =
     (if a = Some False \<or> b = Some False then Some False
      else if a = Some True \<and> b = Some True then Some True
      else None)"

definition sql_or :: "sql_bool \<Rightarrow> sql_bool \<Rightarrow> sql_bool" where
  "sql_or a b =
     (if a = Some True \<or> b = Some True then Some True
      else if a = Some False \<and> b = Some False then Some False
      else None)"

definition sql_is_null :: "'a option \<Rightarrow> sql_bool" where
  "sql_is_null x = Some (x = None)"

definition sql_is_not_null :: "'a option \<Rightarrow> sql_bool" where
  "sql_is_not_null x = Some (x \<noteq> None)"

definition sql_ne :: "'a option \<Rightarrow> 'a option \<Rightarrow> sql_bool" where
  "sql_ne x y =
     (case x of None \<Rightarrow> None
      | Some a \<Rightarrow> (case y of None \<Rightarrow> None | Some b \<Rightarrow> Some (a \<noteq> b)))"

definition sql_gt :: "timestamp option \<Rightarrow> timestamp option \<Rightarrow> sql_bool" where
  "sql_gt x y =
     (case x of None \<Rightarrow> None
      | Some a \<Rightarrow> (case y of None \<Rightarrow> None | Some b \<Rightarrow> Some (b < a)))"

text \<open>An IF or a WHERE takes its branch only when the condition is TRUE.\<close>

definition sql_true :: "sql_bool \<Rightarrow> bool" where
  "sql_true c = (c = Some True)"

section \<open>Rows of the synchronized tables\<close>

datatype user_type = Common | VIP | Backstage

datatype user_status = IDLE | In | Out | Expired | Banned

datatype event_type = ENTRY | EXIT | DENIED

datatype scan_result = PASS | FAIL

text \<open>Table \<open>users\<close> of rfid_config_setup.sql.\<close>

record users_row =
  usr_id :: int
  usr_rfid_tag :: string
  usr_name :: "string option"
  usr_nic :: "string option"
  usr_user_type :: user_type
  usr_status :: user_status
  usr_last_seen_at :: "timestamp option"
  usr_last_gate_id :: "int option"
  usr_last_booth_id :: "int option"
  usr_last_result :: "scan_result option"
  usr_created_at :: "timestamp option"
  usr_updated_at :: "timestamp option"
  usr_node_id :: "int option"
  usr_version :: "int option"
  usr_last_sync_at :: "timestamp option"

text \<open>Table \<open>logs\<close> of rfid_config_setup.sql.\<close>

record logs_row =
  logs_id :: int
  logs_user_id :: "int option"
  logs_user_type :: user_type
  logs_event_type :: event_type
  logs_gate_id :: int
  logs_booth_id :: int
  logs_timestamp :: timestamp
  logs_result :: scan_result
  logs_message :: "string option"
  logs_node_id :: int
  logs_synced :: bool
  logs_sync_timestamp :: "timestamp option"

section \<open>Triggers\<close>

text \<open>
  \<open>trg_users_before_update\<close> (rfid_config_setup.sql): BEFORE UPDATE ON users FOR EACH ROW.
  \<open>OLD\<close> is the stored row, \<open>NEW\<close> the row the statement proposes.
\<close>

definition trg_users_before_update :: "timestamp \<Rightarrow> users_row \<Rightarrow> users_row \<Rightarrow> users_row" where
  "trg_users_before_update now OLD NEW =
     NEW\<lparr> usr_version := Some (COALESCE (usr_version OLD) 0 + 1),
          usr_last_sync_at := Some now,
          usr_updated_at := Some now \<rparr>"

text \<open>
  \<open>trg_logs_before_update_sync\<close> (rfid_config_setup.sql): BEFORE UPDATE ON logs FOR EACH ROW.
\<close>

definition trg_logs_before_update_sync :: "logs_row \<Rightarrow> logs_row \<Rightarrow> logs_row" where
  "trg_logs_before_update_sync OLD NEW =
     (if sql_true
           (sql_and (sql_is_not_null (logs_sync_timestamp NEW))
              (sql_or (sql_is_null (logs_sync_timestamp OLD))
                 (sql_ne (logs_sync_timestamp OLD) (logs_sync_timestamp NEW))))
      then NEW\<lparr> logs_synced := True \<rparr>
      else NEW)"

text \<open>
  The row an UPDATE of one users row stores: the BEFORE UPDATE trigger runs on the
  proposed row, then the column constraints of \<open>version INT NOT NULL\<close> are checked.
\<close>

definition users_row_update :: "timestamp \<Rightarrow> users_row \<Rightarrow> users_row \<Rightarrow> sql_error + users_row" where
  "users_row_update now OLD NEW =
     (let N = trg_users_before_update now OLD NEW in
      case usr_version N of
        None \<Rightarrow> Inl NullViolation
      | Some v \<Rightarrow> if int_in_range v then Inr N else Inl OutOfRange)"

text \<open>The row an UPDATE of one logs row stores.\<close>

definition logs_row_update :: "logs_row \<Rightarrow> logs_row \<Rightarrow> logs_row" where
  "logs_row_update OLD NEW = trg_logs_before_update_sync OLD NEW"

section \<open>The first schema\<close>

text \<open>Table \<open>users\<close> of rfid_schema_V1.sql and its trigger \<open>users_version_update\<close>.\<close>

datatype user_status_v1 = IDLE_v1 | In_v1 | Out_v1

datatype gate_location = NORTH | SOUTH | EAST

record users_v1_row =
  v1_id :: int
  v1_name :: "string option"
  v1_nic :: "string option"
  v1_rfid_tag :: string
  v1_status :: user_status_v1
  v1_is_active :: bool
  v1_last_seen_at :: "timestamp option"
  v1_last_gate :: "gate_location option"
  v1_last_result :: "scan_result option"
  v1_created_at :: "timestamp option"
  v1_updated_at :: "timestamp option"
  v1_node_id :: string
  v1_version :: "int option"
  v1_last_sync_at :: "timestamp option"

definition users_version_update :: "timestamp \<Rightarrow> users_v1_row \<Rightarrow> users_v1_row \<Rightarrow> users_v1_row" where
  "users_version_update now OLD NEW =
     NEW\<lparr> v1_version := map_option (\<lambda>v. v + 1) (v1_version OLD),
          v1_last_sync_at := Some now \<rparr>"

definition users_v1_row_update ::
  "timestamp \<Rightarrow> users_v1_row \<Rightarrow> users_v1_row \<Rightarrow> sql_error + users_v1_row" where
  "users_v1_row_update now OLD NEW =
     (let N = users_version_update now OLD NEW in
      case v1_version N of
        None \<Rightarrow> Inl NullViolation
      | Some v \<Rightarrow> if int_in_range v then Inr N else Inl OutOfRange)"

section \<open>The change queue, the sync metadata and the conflict table\<close>

datatype operation = INSERT | UPDATE | DELETE

datatype json = JNull | JInt int | JString string | JObject "(string \<times> json) list"

record sync_queue_row =
  sync_queue_id :: int
  sync_queue_table_name :: string
  sync_queue_record_id :: int
  sync_queue_operation :: operation
  sync_queue_data :: "json option"
  sync_queue_created_at :: "timestamp option"
  sync_queue_synced :: "bool option"

datatype sync_status = SUCCESS | FAILED | IN_PROGRESS

record sync_metadata_row =
  sync_metadata_id :: int
  sync_metadata_node_id :: int
  sync_metadata_table_name :: string
  sync_metadata_last_sync_timestamp :: timestamp
  sync_metadata_sync_status :: sync_status
  sync_metadata_error_message :: "string option"

text \<open>Table \<open>nodes\<close> of rfid_config_setup.sql, which users.node_id refers to.\<close>

record nodes_row =
  nodes_id :: int
  nodes_gate_id :: int
  nodes_IP :: string
  nodes_esp_mac :: "string option"

datatype conflict_type = INSERT_DUPLICATE | UPDATE_CONFLICT

record replication_conflicts_row =
  conflicts_id :: int
  conflicts_table_name :: string
  conflicts_record_id :: int
  conflicts_conflict_type :: conflict_type
  conflicts_node_id :: int
  conflicts_conflict_data :: "json option"
  conflicts_resolved :: "bool option"
  conflicts_created_at :: "timestamp option"

fun status_name :: "user_status \<Rightarrow> string" where
  "status_name IDLE = ''IDLE''"
| "status_name In = ''In''"
| "status_name Out = ''Out''"
| "status_name Expired = ''Expired''"
| "status_name Banned = ''Banned''"

definition json_of_varchar :: "string option \<Rightarrow> json" where
  "json_of_varchar s = (case s of None \<Rightarrow> JNull | Some v \<Rightarrow> JString v)"

text \<open>
  \<open>users_sync_trigger\<close> (setup guide, option 3): AFTER UPDATE ON users FOR EACH ROW.
  It is the only trigger that writes to \<open>sync_queue\<close>. The value is the column list
  (table_name, record_id, operation, data) of its INSERT; id, created_at and synced take
  their defaults.
\<close>

definition users_sync_trigger :: "users_row \<Rightarrow> string \<times> int \<times> operation \<times> json" where
  "users_sync_trigger NEW =
     (''users'', usr_id NEW, UPDATE,
      JObject [(''id'', JInt (usr_id NEW)),
               (''name'', json_of_varchar (usr_name NEW)),
               (''rfid_tag'', JString (usr_rfid_tag NEW)),
               (''status'', JString (status_name (usr_status NEW)))])"

section \<open>The identity partitioner\<close>

text \<open>
  Modelled from the spec: the allocator is the storage engine's AUTO_INCREMENT, which is
  not part of the repository; the repository only configures it
  (\<open>auto-increment-increment\<close>, the step, and \<open>auto-increment-offset\<close>, the starting
  point). A generated key is the least value of the series offset, offset + increment,
  offset + 2 * increment, ... that is greater than the last key of the table. Both
  variables are positive, and the offset of a node is at most the increment.
\<close>

definition next_auto_increment :: "int \<Rightarrow> int \<Rightarrow> int \<Rightarrow> int" where
  "next_auto_increment increment offset last_key =
     (if last_key < offset then offset
      else offset + ((last_key - offset) div increment + 1) * increment)"

section \<open>The database of one node\<close>

text \<open>
  The state of a node: the two synchronized tables, the change queue, the sync metadata,
  the conflict table, the table of nodes, the AUTO_INCREMENT counter of each table that
  the statements below insert into (the last key used), and the two server variables of
  the node. The reference tables gates, devices and booths are outside the model: the
  foreign keys into them, and the foreign key of a row that is written into nodes, are
  taken to hold.
\<close>

record database =
  users :: "users_row list"
  logs :: "logs_row list"
  sync_queue :: "sync_queue_row list"
  sync_metadata :: "sync_metadata_row list"
  replication_conflicts :: "replication_conflicts_row list"
  nodes :: "nodes_row list"
  users_auto_increment :: int
  logs_auto_increment :: int
  sync_queue_auto_increment :: int
  auto_increment_increment :: int
  auto_increment_offset :: int

text \<open>The INSERT INTO sync_queue that \<open>users_sync_trigger\<close> executes.\<close>

definition insert_sync_queue ::
  "timestamp \<Rightarrow> string \<times> int \<times> operation \<times> json \<Rightarrow> database \<Rightarrow> sql_error + database" where
  "insert_sync_queue now v db =
     (case v of (tn, rid, opn, d) \<Rightarrow>
        let i = next_auto_increment (auto_increment_increment db) (auto_increment_offset db)
                  (sync_queue_auto_increment db)
        in if \<not> int_in_range i then Inl OutOfRange
           else if \<not> int_in_range rid then Inl OutOfRange
           else Inr (db\<lparr> sync_queue := sync_queue db @
                          [\<lparr> sync_queue_id = i, sync_queue_table_name = tn,
                             sync_queue_record_id = rid, sync_queue_operation = opn,
                             sync_queue_data = Some d, sync_queue_created_at = Some now,
                             sync_queue_synced = Some False \<rparr>],
                        sync_queue_auto_increment := i \<rparr>))"

text \<open>
  INSERT INTO users. A proposed id of 0 asks for a generated key. No trigger is defined
  on INSERT.
\<close>

definition insert_users :: "users_row \<Rightarrow> database \<Rightarrow> sql_error + database" where
  "insert_users row db =
     (let i = (if usr_id row = 0
               then next_auto_increment (auto_increment_increment db) (auto_increment_offset db)
                      (users_auto_increment db)
               else usr_id row);
          N = row\<lparr> usr_id := i \<rparr>
      in if \<not> int_in_range i then Inl OutOfRange
         else (case usr_version N of
                 None \<Rightarrow> Inl NullViolation
               | Some v \<Rightarrow>
                   if \<not> int_in_range v then Inl OutOfRange
                   else if list_ex (\<lambda>r. usr_id r = i \<or> usr_rfid_tag r = usr_rfid_tag N) (users db)
                   then Inl DuplicateKey
                   else Inr (db\<lparr> users := users db @ [N],
                                users_auto_increment := max (users_auto_increment db) i \<rparr>)))"

text \<open>
  The row of \<open>INSERT INTO users (rfid_tag, name, nic, user_type) VALUES ...\<close>, the form the
  seed script uses: every other column takes its default.
\<close>

definition users_defaults ::
  "timestamp \<Rightarrow> string \<Rightarrow> string option \<Rightarrow> string option \<Rightarrow> user_type \<Rightarrow> users_row" where
  "users_defaults now tag name nic ut =
     \<lparr> usr_id = 0, usr_rfid_tag = tag, usr_name = name, usr_nic = nic,
       usr_user_type = ut, usr_status = IDLE, usr_last_seen_at = None,
       usr_last_gate_id = None, usr_last_booth_id = None, usr_last_result = None,
       usr_created_at = Some now, usr_updated_at = Some now, usr_node_id = None,
       usr_version = Some 1, usr_last_sync_at = Some now \<rparr>"

text \<open>
  UPDATE users SET ... WHERE id = i. \<open>set_clause\<close> is the SET list: it turns the stored
  row into the proposed one. The BEFORE UPDATE trigger runs, the keys are checked
  (PRIMARY KEY, UNIQUE rfid_tag, fk_logs_user ON UPDATE RESTRICT), the row is stored and
  the AFTER UPDATE trigger appends to the change queue, all in the one statement: an
  error leaves the database as it was.
\<close>

definition update_users ::
  "timestamp \<Rightarrow> int \<Rightarrow> (users_row \<Rightarrow> users_row) \<Rightarrow> database \<Rightarrow> sql_error + database" where
  "update_users now i set_clause db =
     (case find (\<lambda>r. usr_id r = i) (users db) of
        None \<Rightarrow> Inr db
      | Some OLD \<Rightarrow>
          (case users_row_update now OLD (set_clause OLD) of
             Inl e \<Rightarrow> Inl e
           | Inr N \<Rightarrow>
               if \<not> int_in_range (usr_id N) then Inl OutOfRange
               else if list_ex (\<lambda>r. usr_id r \<noteq> i \<and>
                          (usr_id r = usr_id N \<or> usr_rfid_tag r = usr_rfid_tag N)) (users db)
               then Inl DuplicateKey
               else if usr_id N \<noteq> i \<and> list_ex (\<lambda>l. logs_user_id l = Some i) (logs db)
               then Inl ForeignKeyViolation
               else insert_sync_queue now (users_sync_trigger N)
                      (db\<lparr> users := map (\<lambda>r. if usr_id r = i then N else r) (users db) \<rparr>)))"

text \<open>
  DELETE FROM users WHERE id = i. No trigger is defined on DELETE; fk_logs_user is
  ON DELETE SET NULL.
\<close>

definition delete_users :: "int \<Rightarrow> database \<Rightarrow> sql_error + database" where
  "delete_users i db =
     Inr (db\<lparr> users := filter (\<lambda>r. usr_id r \<noteq> i) (users db),
              logs := (if list_ex (\<lambda>r. usr_id r = i) (users db)
                       then map (\<lambda>l. if logs_user_id l = Some i then l\<lparr> logs_user_id := None \<rparr> else l)
                              (logs db)
                       else logs db) \<rparr>)"

text \<open>
  DELETE FROM nodes WHERE id = i. fk_logs_node, fk_sync_metadata_node and fk_conflicts_node
  are ON DELETE RESTRICT; fk_users_node is ON DELETE SET NULL, and the storage engine
  carries out that action on the users rows without activating their triggers.
\<close>

definition delete_nodes :: "int \<Rightarrow> database \<Rightarrow> sql_error + database" where
  "delete_nodes i db =
     (if \<not> list_ex (\<lambda>n. nodes_id n = i) (nodes db) then Inr db
      else if list_ex (\<lambda>l. logs_node_id l = i) (logs db)
              \<or> list_ex (\<lambda>m. sync_metadata_node_id m = i) (sync_metadata db)
              \<or> list_ex (\<lambda>c. conflicts_node_id c = i) (replication_conflicts db)
      then Inl ForeignKeyViolation
      else Inr (db\<lparr> nodes := filter (\<lambda>n. nodes_id n \<noteq> i) (nodes db),
                   users := map (\<lambda>r. if usr_node_id r = Some i then r\<lparr> usr_node_id := None \<rparr> else r)
                              (users db) \<rparr>))"

text \<open>INSERT INTO logs. No trigger is defined on INSERT.\<close>

definition insert_logs :: "logs_row \<Rightarrow> database \<Rightarrow> sql_error + database" where
  "insert_logs row db =
     (let i = (if logs_id row = 0
               then next_auto_increment (auto_increment_increment db) (auto_increment_offset db)
                      (logs_auto_increment db)
               else logs_id row);
          N = row\<lparr> logs_id := i \<rparr>
      in if \<not> int_in_range i then Inl OutOfRange
         else if list_ex (\<lambda>l. logs_id l = i) (logs db) then Inl DuplicateKey
         else if (case logs_user_id N of None \<Rightarrow> False
                  | Some u \<Rightarrow> \<not> list_ex (\<lambda>r. usr_id r = u) (users db))
         then Inl ForeignKeyViolation
         else Inr (db\<lparr> logs := logs db @ [N],
                      logs_auto_increment := max (logs_auto_increment db) i \<rparr>))"

text \<open>
  UPDATE logs SET ... WHERE id = i: the BEFORE UPDATE trigger, then the keys
  (PRIMARY KEY, fk_logs_user, fk_conflicts_log ON UPDATE RESTRICT).
\<close>

definition update_logs :: "int \<Rightarrow> (logs_row \<Rightarrow> logs_row) \<Rightarrow> database \<Rightarrow> sql_error + database" where
  "update_logs i set_clause db =
     (case find (\<lambda>l. logs_id l = i) (logs db) of
        None \<Rightarrow> Inr db
      | Some OLD \<Rightarrow>
          (let N = logs_row_update OLD (set_clause OLD)
           in if \<not> int_in_range (logs_id N) then Inl OutOfRange
              else if list_ex (\<lambda>l. logs_id l \<noteq> i \<and> logs_id l = logs_id N) (logs db)
              then Inl DuplicateKey
              else if (case logs_user_id N of None \<Rightarrow> False
                       | Some u \<Rightarrow> \<not> list_ex (\<lambda>r. usr_id r = u) (users db))
              then Inl ForeignKeyViolation
              else if logs_id N \<noteq> i \<and>
                      list_ex (\<lambda>c. conflicts_record_id c = i) (replication_conflicts db)
              then Inl ForeignKeyViolation
              else Inr (db\<lparr> logs := map (\<lambda>l. if logs_id l = i then N else l) (logs db) \<rparr>)))"

text \<open>DELETE FROM logs WHERE id = i: fk_conflicts_log is ON DELETE RESTRICT.\<close>

definition delete_logs :: "int \<Rightarrow> database \<Rightarrow> sql_error + database" where
  "delete_logs i db =
     (if list_ex (\<lambda>l. logs_id l = i) (logs db) \<and>
         list_ex (\<lambda>c. conflicts_record_id c = i) (replication_conflicts db)
      then Inl ForeignKeyViolation
      else Inr (db\<lparr> logs := filter (\<lambda>l. logs_id l \<noteq> i) (logs db) \<rparr>))"

text \<open>
  A run of UPDATE statements on one users row, each given by the time it is executed and
  the row it proposes.
\<close>

fun apply_updates ::
  "users_row \<Rightarrow> (timestamp \<times> users_row) list \<Rightarrow> sql_error + users_row" where
  "apply_updates row [] = Inr row"
| "apply_updates row ((now, NEW) # ups) =
     (case users_row_update now row NEW of
        Inl e \<Rightarrow> Inl e
      | Inr row' \<Rightarrow> apply_updates row' ups)"

section \<open>The sync script\<close>

text \<open>
  \<open>DatabaseSync.sync_table\<close> (setup guide, option 2). A remote node is named by its id.
  \<open>send_to_node\<close> is called by the script and defined nowhere in the repository: it is a
  parameter, returning \<open>None\<close> when the call returns and the message of the exception it
  raises otherwise. The script catches no exception, so the first one ends the cycle
  before the UPDATE of sync_metadata and before the commit.
\<close>

text \<open>A scalar subquery: no row is NULL, more than one row is an error.\<close>

fun scalar_subquery :: "'a list \<Rightarrow> sql_error + 'a option" where
  "scalar_subquery [] = Inr None"
| "scalar_subquery [x] = Inr (Some x)"
| "scalar_subquery (x # y # zs) = Inl SubqueryMultipleRows"

text \<open>The tables of the schema that have no column \<open>last_sync_at\<close>.\<close>

definition tables_without_last_sync_at :: "string list" where
  "tables_without_last_sync_at =
     [''gates'', ''devices'', ''booths'', ''nodes'', ''logs'', ''sync_metadata'',
      ''replication_conflicts'', ''admins'', ''sync_queue'']"

text \<open>The loop over \<open>remote_nodes\<close>: the messages delivered, and the exception if one was raised.\<close>

fun send_all ::
  "(int \<Rightarrow> string \<Rightarrow> users_row list \<Rightarrow> string option) \<Rightarrow> int list \<Rightarrow> string \<Rightarrow> users_row list
   \<Rightarrow> (int \<times> string \<times> users_row list) list \<times> string option" where
  "send_all send_to_node [] table_name local_data = ([], None)"
| "send_all send_to_node (node # peers) table_name local_data =
     (case send_to_node node table_name local_data of
        Some err \<Rightarrow> ([], Some err)
      | None \<Rightarrow>
          (case send_all send_to_node peers table_name local_data of
             (sent, e) \<Rightarrow> ((node, table_name, local_data) # sent, e)))"

record sync_outcome =
  so_sent :: "(int \<times> string \<times> users_row list) list"
  so_db :: database
  so_error :: "sql_error option"

definition sync_table ::
  "(int \<Rightarrow> string \<Rightarrow> users_row list \<Rightarrow> string option) \<Rightarrow> int list \<Rightarrow> timestamp \<Rightarrow> string
   \<Rightarrow> database \<Rightarrow> sync_outcome" where
  "sync_table send_to_node remote_nodes now table_name db =
     (if table_name \<noteq> ''users'' then
        \<lparr> so_sent = [], so_db = db,
          so_error = Some (if table_name \<in> set tables_without_last_sync_at
                           then UnknownColumn else NoSuchTable) \<rparr>
      else
        (case scalar_subquery
                (map sync_metadata_last_sync_timestamp
                   (filter (\<lambda>m. sync_metadata_table_name m = table_name) (sync_metadata db))) of
           Inl e \<Rightarrow> \<lparr> so_sent = [], so_db = db, so_error = Some e \<rparr>
         | Inr position \<Rightarrow>
             (let local_data =
                    filter (\<lambda>r. sql_true (sql_gt (usr_last_sync_at r) position)) (users db)
              in case send_all send_to_node remote_nodes table_name local_data of
                   (sent, Some err) \<Rightarrow>
                     \<lparr> so_sent = sent, so_db = db, so_error = Some (SendFailed err) \<rparr>
                 | (sent, None) \<Rightarrow>
                     \<lparr> so_sent = sent,
                       so_db = db\<lparr> sync_metadata :=
                                 map (\<lambda>m. if sync_metadata_table_name m = table_name
                                           then m\<lparr> sync_metadata_last_sync_timestamp := now \<rparr>
                                           else m)
                                   (sync_metadata db) \<rparr>,
                       so_error = None \<rparr>)))"

text \<open>
  The selection as the specification words it: the rows newer than the position recorded
  for the pair (peer, table); and the property that a cycle is keyed by that pair: each
  peer is sent exactly that selection, and a sync_metadata row changes only when its own
  (node, table) pair was synced.
\<close>

definition spec_sync_position :: "database \<Rightarrow> int \<Rightarrow> string \<Rightarrow> timestamp list" where
  "spec_sync_position db peer table_name =
     map sync_metadata_last_sync_timestamp
       (filter (\<lambda>m. sync_metadata_node_id m = peer \<and> sync_metadata_table_name m = table_name)
          (sync_metadata db))"

definition spec_pull_selection :: "database \<Rightarrow> int \<Rightarrow> string \<Rightarrow> users_row list" where
  "spec_pull_selection db peer table_name =
     (case spec_sync_position db peer table_name of
        [p] \<Rightarrow> filter (\<lambda>r. sql_true (sql_gt (usr_last_sync_at r) (Some p))) (users db)
      | _ \<Rightarrow> [])"

definition spec_keyed_by_peer_and_table :: "database \<Rightarrow> sync_outcome \<Rightarrow> bool" where
  "spec_keyed_by_peer_and_table db out =
     (list_all (\<lambda>(p, t, d). d = spec_pull_selection db p t) (so_sent out) \<and>
      list_all (\<lambda>(m, m'). m' = m \<or>
                  list_ex (\<lambda>(p, t, d). sync_metadata_node_id m = p \<and> sync_metadata_table_name m = t)
                    (so_sent out))
        (zip (sync_metadata db) (sync_metadata (so_db out))))"

section \<open>Conflict resolution\<close>

text \<open>
  Modelled from the spec: the repository declares the table replication_conflicts and has
  no code that resolves a conflict. The policy of the specification: of two conflicting
  writes to one record the one with the later timestamp wins; on equal timestamps the
  one made on the node with the lower ordinal wins.
\<close>

record 'a record_write =
  write_timestamp :: timestamp
  write_node :: nat
  write_value :: 'a

definition resolve_conflict :: "'a record_write \<Rightarrow> 'a record_write \<Rightarrow> 'a record_write" where
  "resolve_conflict mine theirs =
     (if write_timestamp theirs < write_timestamp mine then mine
      else if write_timestamp mine < write_timestamp theirs then theirs
      else if write_node mine \<le> write_node theirs then mine
      else theirs)"

section \<open>Statements\<close>

text \<open>The statements on the two synchronized tables, each executed as one unit of work.\<close>

datatype statement =
    InsertUsers users_row
  | UpdateUsers int "users_row \<Rightarrow> users_row"
  | DeleteUsers int
  | InsertLogs logs_row
  | UpdateLogs int "logs_row \<Rightarrow> logs_row"
  | DeleteLogs int

fun execute :: "timestamp \<Rightarrow> statement \<Rightarrow> database \<Rightarrow> sql_error + database" where
  "execute now (InsertUsers row) db = insert_users row db"
| "execute now (UpdateUsers i set_clause) db = update_users now i set_clause db"
| "execute now (DeleteUsers i) db = delete_users i db"
| "execute now (InsertLogs row) db = insert_logs row db"
| "execute now (UpdateLogs i set_clause) db = update_logs i set_clause db"
| "execute now (DeleteLogs i) db = delete_logs i db"

section \<open>A sample node\<close>

text \<open>
  Node 1 of the two-node setup of the replication guide (increment 2, offset 1), holding
  the first test user of the seed script, one log row of that user's entry, the sync
  metadata row of table users, and the two nodes of the seed script.
\<close>

definition sample_user :: users_row where
  "sample_user =
     (users_defaults 100 ''0438864388'' (Some ''Kasun Perera'') (Some ''900000000V'') Common)
       \<lparr> usr_id := 1 \<rparr>"

definition sample_log :: logs_row where
  "sample_log =
     \<lparr> logs_id = 1, logs_user_id = Some 1, logs_user_type = Common, logs_event_type = ENTRY,
       logs_gate_id = 1, logs_booth_id = 1, logs_timestamp = 120, logs_result = PASS,
       logs_message = None, logs_node_id = 1, logs_synced = False,
       logs_sync_timestamp = None \<rparr>"

definition sample_metadata :: sync_metadata_row where
  "sample_metadata =
     \<lparr> sync_metadata_id = 1, sync_metadata_node_id = 1, sync_metadata_table_name = ''users'',
       sync_metadata_last_sync_timestamp = 50, sync_metadata_sync_status = SUCCESS,
       sync_metadata_error_message = None \<rparr>"

definition sample_nodes :: "nodes_row list" where
  "sample_nodes =
     [\<lparr> nodes_id = 1, nodes_gate_id = 1, nodes_IP = ''192.168.10.3'',
        nodes_esp_mac = Some ''80:B5:4E:D7:BE:44'' \<rparr>,
      \<lparr> nodes_id = 2, nodes_gate_id = 2, nodes_IP = ''192.168.10.2'',
        nodes_esp_mac = Some ''80:B5:4E:D7:0D:78'' \<rparr>]"

definition sample_db :: database where
  "sample_db =
     \<lparr> users = [sample_user], logs = [sample_log], sync_queue = [],
       sync_metadata = [sample_metadata], replication_conflicts = [], nodes = sample_nodes,
       users_auto_increment = 1, logs_auto_increment = 1, sync_queue_auto_increment = 0,
       auto_increment_increment = 2, auto_increment_offset = 1 \<rparr>"

text \<open>
  \<open>UPDATE users SET status = 'In', version = 40, last_sync_at = NULL, updated_at = 7
  WHERE id = ...\<close>: a statement that tries to write the bookkeeping columns itself.
\<close>

definition sample_set_clause :: "users_row \<Rightarrow> users_row" where
  "sample_set_clause r =
     r\<lparr> usr_status := In, usr_version := Some 40, usr_last_sync_at := None,
        usr_updated_at := Some 7 \<rparr>"

text \<open>A second test user of the seed script, as its INSERT proposes it.\<close>

definition sample_new_user :: users_row where
  "sample_new_user =
     users_defaults 200 ''2886066914'' (Some ''Nimali Silva'') (Some ''910000000V'') Common"

text \<open>The first sample user of rfid_schema_V1.sql.\<close>

definition sample_v1_user :: users_v1_row where
  "sample_v1_user =
     \<lparr> v1_id = 1, v1_name = Some ''John Doe'', v1_nic = Some ''123456789V'',
       v1_rfid_tag = ''RFID001'', v1_status = IDLE_v1, v1_is_active = True,
       v1_last_seen_at = None, v1_last_gate = None, v1_last_result = None,
       v1_created_at = Some 100, v1_updated_at = Some 100, v1_node_id = ''node1'',
       v1_version = Some 1, v1_last_sync_at = Some 100 \<rparr>"

definition user_versions :: "database \<Rightarrow> int option list" where
  "user_versions db = map usr_version (users db)"

definition user_node_ids :: "database \<Rightarrow> int option list" where
  "user_node_ids db = map usr_node_id (users db)"

text \<open>
  \<open>INSERT INTO users (rfid_tag, name, nic, user_type, version) VALUES (..., 7)\<close>: the
  second test user, inserted with a version of the statement's choice.
\<close>

definition sample_versioned_user :: users_row where
  "sample_versioned_user = sample_new_user\<lparr> usr_version := Some 7 \<rparr>"

text \<open>The sample node when its user is owned by node 2, and when it holds both test users.\<close>

definition sample_db_owned :: database where
  "sample_db_owned = sample_db\<lparr> users := [sample_user\<lparr> usr_node_id := Some 2 \<rparr>] \<rparr>"

definition sample_db_two_users :: database where
  "sample_db_two_users =
     sample_db\<lparr> users := [sample_user, sample_new_user\<lparr> usr_id := 3 \<rparr>],
                users_auto_increment := 3 \<rparr>"

text \<open>A transport that delivers, and one whose peer cannot be reached.\<close>

definition send_delivers :: "int \<Rightarrow> string \<Rightarrow> users_row list \<Rightarrow> string option" where
  "send_delivers node table_name local_data = None"

definition send_unreachable :: "int \<Rightarrow> string \<Rightarrow> users_row list \<Rightarrow> string option" where
  "send_unreachable node table_name local_data = Some ''peer unreachable''"




text \<open>A further log row of the sample user, as its INSERT proposes it.\<close>

definition sample_new_log :: logs_row where
  "sample_new_log = sample_log\<lparr> logs_id := 0, logs_event_type := EXIT, logs_timestamp := 180 \<rparr>"

text \<open>\<open>UPDATE users SET nic = '000000000V' WHERE id = ...\<close> and \<open>UPDATE users SET nic = nic WHERE id = ...\<close>\<close>

definition sample_nic_set_clause :: "users_row \<Rightarrow> users_row" where
  "sample_nic_set_clause r = r\<lparr> usr_nic := Some ''000000000V'' \<rparr>"

definition sample_keep_set_clause :: "users_row \<Rightarrow> users_row" where
  "sample_keep_set_clause r = r\<lparr> usr_nic := usr_nic r \<rparr>"

definition queue_data :: "database \<Rightarrow> json option list" where
  "queue_data db = map sync_queue_data (sync_queue db)"

definition user_nics :: "database \<Rightarrow> string option list" where
  "user_nics db = map usr_nic (users db)"

section \<open>The row triggers\<close>

text \<open>Unfolding sets for evaluating the statements on the sample node.\<close>

lemmas sample_defs =
  sample_db_def sample_user_def sample_log_def sample_metadata_def sample_nodes_def
  users_defaults_def sample_set_clause_def sample_new_user_def sample_new_log_def
  sample_versioned_user_def sample_db_owned_def sample_db_two_users_def sample_v1_user_def

lemmas sql_defs =
  COALESCE_def int_in_range_def INT_MIN_def INT_MAX_def next_auto_increment_def

lemmas statement_defs =
  insert_users_def update_users_def delete_users_def delete_nodes_def insert_logs_def
  update_logs_def delete_logs_def insert_sync_queue_def users_row_update_def
  trg_users_before_update_def users_sync_trigger_def json_of_varchar_def

lemma sql_condition_simps:
  "sql_true (sql_and (sql_is_not_null n) (sql_or (sql_is_null old) (sql_ne old n)))
     = (n \<noteq> None \<and> n \<noteq> old)"
  by (cases n; cases old)
     (simp_all add: sql_true_def sql_and_def sql_or_def sql_is_null_def sql_is_not_null_def sql_ne_def)

text \<open>
  C10: an update of a logs row whose new sync_timestamp is non-null and differs from the
  stored one (a stored NULL included) stores synced = TRUE whatever synced value the
  update supplied; when sync_timestamp is unchanged or set to NULL, synced is stored as
  supplied.
\<close>

theorem logs_update_synced_flag:
  "logs_synced (logs_row_update OLD NEW) =
     (if logs_sync_timestamp NEW \<noteq> None \<and> logs_sync_timestamp NEW \<noteq> logs_sync_timestamp OLD
      then True else logs_synced NEW)"
  by (simp add: logs_row_update_def trg_logs_before_update_sync_def sql_condition_simps)

theorem logs_update_synced_flag_witness:
  "logs_synced (logs_row_update sample_log (sample_log\<lparr> logs_sync_timestamp := Some 130 \<rparr>))
   \<and> \<not> logs_synced (logs_row_update (sample_log\<lparr> logs_sync_timestamp := Some 130 \<rparr>)
                       (sample_log\<lparr> logs_sync_timestamp := Some 130 \<rparr>))
   \<and> \<not> logs_synced (logs_row_update (sample_log\<lparr> logs_sync_timestamp := Some 130 \<rparr>) sample_log)"
  using logs_update_synced_flag [of sample_log "sample_log\<lparr> logs_sync_timestamp := Some 130 \<rparr>"]
    logs_update_synced_flag [of "sample_log\<lparr> logs_sync_timestamp := Some 130 \<rparr>"
      "sample_log\<lparr> logs_sync_timestamp := Some 130 \<rparr>"]
    logs_update_synced_flag [of "sample_log\<lparr> logs_sync_timestamp := Some 130 \<rparr>" sample_log]
  by (simp add: sample_log_def)

lemma users_row_update_Inr:
  "users_row_update now OLD NEW = Inr N \<Longrightarrow>
     N = NEW\<lparr> usr_version := Some (COALESCE (usr_version OLD) 0 + 1),
              usr_last_sync_at := Some now, usr_updated_at := Some now \<rparr>
     \<and> int_in_range (COALESCE (usr_version OLD) 0 + 1)"
  by (auto simp: users_row_update_def trg_users_before_update_def Let_def split: if_splits)

lemma users_row_update_ok:
  "int_in_range (COALESCE (usr_version OLD) 0 + 1) \<Longrightarrow>
     users_row_update now OLD NEW =
       Inr (NEW\<lparr> usr_version := Some (COALESCE (usr_version OLD) 0 + 1),
              usr_last_sync_at := Some now, usr_updated_at := Some now \<rparr>)"
  by (simp add: users_row_update_def trg_users_before_update_def Let_def)

text \<open>
  A run of updates goes through whenever the version stays within the INT column.
\<close>

lemma apply_updates_succeeds:
  "INT_MIN - 1 \<le> COALESCE (usr_version row) 0 \<Longrightarrow>
   COALESCE (usr_version row) 0 + int (length ups) \<le> INT_MAX \<Longrightarrow>
   \<exists>row'. apply_updates row ups = Inr row'"
proof (induction ups arbitrary: row)
  case Nil
  then show ?case by simp
next
  case (Cons u ups)
  obtain now NEW where u: "u = (now, NEW)" by (cases u)
  let ?mid = "NEW\<lparr> usr_version := Some (COALESCE (usr_version row) 0 + 1),
              usr_last_sync_at := Some now, usr_updated_at := Some now \<rparr>"
  from Cons.prems have "int_in_range (COALESCE (usr_version row) 0 + 1)"
    by (simp add: int_in_range_def)
  then have step: "users_row_update now row NEW = Inr ?mid" by (rule users_row_update_ok)
  have "\<exists>row'. apply_updates ?mid ups = Inr row'"
    using Cons.prems by (intro Cons.IH) (simp_all add: COALESCE_def)
  with step u show ?case by simp
qed

text \<open>
  The trigger of the first schema does the same to version and last_sync_at (it has no
  COALESCE, and the column is NOT NULL).
\<close>

lemma users_version_update_bumps:
  "users_v1_row_update now OLD NEW = Inr N \<Longrightarrow>
     \<exists>v. v1_version OLD = Some v \<and> v1_version N = Some (v + 1) \<and> v1_last_sync_at N = Some now"
  by (cases "v1_version OLD")
     (auto simp: users_v1_row_update_def users_version_update_def Let_def split: if_splits)

lemma apply_updates_bumps:
  assumes "apply_updates row ups = Inr row'" and "ups \<noteq> []"
  shows "usr_version row' = Some (COALESCE (usr_version row) 0 + int (length ups))
         \<and> COALESCE (usr_version row) 0 < COALESCE (usr_version row') 0
         \<and> usr_last_sync_at row' = Some (fst (last ups))"
  using assms
proof (induction ups arbitrary: row)
  case Nil
  then show ?case by simp
next
  case (Cons u ups)
  obtain now NEW where u: "u = (now, NEW)" by (cases u)
  from Cons.prems(1) u obtain mid where
    step: "users_row_update now row NEW = Inr mid" and rest: "apply_updates mid ups = Inr row'"
    by (auto split: sum.splits)
  from users_row_update_Inr [OF step]
  have mid: "usr_version mid = Some (COALESCE (usr_version row) 0 + 1)"
    "usr_last_sync_at mid = Some now" by simp_all
  show ?case
  proof (cases "ups = []")
    case True
    with rest mid u show ?thesis by (simp add: COALESCE_def)
  next
    case False
    from Cons.IH [OF rest False] mid u False show ?thesis
      by (simp add: COALESCE_def)
  qed
qed

lemma insert_users_Inr:
  "insert_users r db = Inr db' \<Longrightarrow>
     users db' = users db @
       [r\<lparr> usr_id :=
          (if usr_id r = 0
           then next_auto_increment (auto_increment_increment db) (auto_increment_offset db)
                  (users_auto_increment db)
           else usr_id r) \<rparr>]"
  by (auto simp: insert_users_def Let_def split: option.splits if_splits)

lemma delete_nodes_Inr:
  "delete_nodes n db = Inr db' \<Longrightarrow>
     users db' = (if list_ex (\<lambda>x. nodes_id x = n) (nodes db)
                  then map (\<lambda>r. if usr_node_id r = Some n then r\<lparr> usr_node_id := None \<rparr> else r)
                         (users db)
                  else users db)
     \<and> sync_queue db' = sync_queue db"
  by (auto simp: delete_nodes_def split: if_splits)

text \<open>
  C3, as the code has it: every UPDATE statement executed on a users row, under the
  trigger of either schema, raises the version by one and sets last_sync_at to the time
  of the statement before the row is stored, so a run of UPDATE statements raises the
  version by the length of the run. The version is not the number of mutations of the
  row: an INSERT stores the version the statement supplies, and deleting a node sets
  node_id to NULL in the users rows of that node and leaves their version as it was.
\<close>

theorem users_version_counts_update_statements:
  "(apply_updates row ups = Inr row' \<and> ups \<noteq> [] \<longrightarrow>
      usr_version row' = Some (COALESCE (usr_version row) 0 + int (length ups))
      \<and> COALESCE (usr_version row) 0 < COALESCE (usr_version row') 0
      \<and> usr_last_sync_at row' = Some (fst (last ups)))
   \<and> (users_v1_row_update now OLD NEW = Inr N \<longrightarrow>
      (\<exists>v. v1_version OLD = Some v \<and> v1_version N = Some (v + 1))
      \<and> v1_last_sync_at N = Some now)
   \<and> (insert_users r db = Inr db1 \<longrightarrow>
      users db1 = users db @
       [r\<lparr> usr_id :=
          (if usr_id r = 0
           then next_auto_increment (auto_increment_increment db) (auto_increment_offset db)
                  (users_auto_increment db)
           else usr_id r) \<rparr>])
   \<and> (delete_nodes n db = Inr db2 \<longrightarrow>
      users db2 = (if list_ex (\<lambda>x. nodes_id x = n) (nodes db)
                   then map (\<lambda>r. if usr_node_id r = Some n then r\<lparr> usr_node_id := None \<rparr> else r)
                          (users db)
                   else users db)
      \<and> sync_queue db2 = sync_queue db)"
proof (intro conjI impI)
  assume a: "apply_updates row ups = Inr row' \<and> ups \<noteq> []"
  then have r: "apply_updates row ups = Inr row'" and ne: "ups \<noteq> []" by simp_all
  note b = apply_updates_bumps [OF r ne]
  from b show "usr_version row' = Some (COALESCE (usr_version row) 0 + int (length ups))"
    by blast
  from b show "COALESCE (usr_version row) 0 < COALESCE (usr_version row') 0" by blast
  from b show "usr_last_sync_at row' = Some (fst (last ups))" by blast
next
  assume "users_v1_row_update now OLD NEW = Inr N"
  from users_version_update_bumps [OF this]
  show "\<exists>v. v1_version OLD = Some v \<and> v1_version N = Some (v + 1)"
    and "v1_last_sync_at N = Some now" by auto
next
  assume "insert_users r db = Inr db1"
  then show "users db1 = users db @
       [r\<lparr> usr_id :=
          (if usr_id r = 0
           then next_auto_increment (auto_increment_increment db) (auto_increment_offset db)
                  (users_auto_increment db)
           else usr_id r) \<rparr>]" by (rule insert_users_Inr)
next
  assume d: "delete_nodes n db = Inr db2"
  from delete_nodes_Inr [OF d]
  show "users db2 = (if list_ex (\<lambda>x. nodes_id x = n) (nodes db)
                   then map (\<lambda>r. if usr_node_id r = Some n then r\<lparr> usr_node_id := None \<rparr> else r)
                          (users db)
                   else users db)"
    and "sync_queue db2 = sync_queue db" by simp_all
qed

theorem users_version_counts_update_statements_witness:
  "(\<exists>row'. apply_updates sample_user
        [(200, sample_user\<lparr> usr_status := In \<rparr>),
         (210, sample_user\<lparr> usr_status := Out, usr_version := Some 1 \<rparr>),
         (220, sample_user\<lparr> usr_version := None \<rparr>)] = Inr row'
      \<and> usr_version sample_user = Some 1
      \<and> usr_version row' = Some 4 \<and> usr_last_sync_at row' = Some 220)
   \<and> (\<exists>N. users_v1_row_update 200 sample_v1_user (sample_v1_user\<lparr> v1_version := Some 40 \<rparr>) = Inr N
      \<and> v1_version N = Some 2 \<and> v1_last_sync_at N = Some 200)
   \<and> (\<exists>db1. insert_users sample_versioned_user sample_db = Inr db1
      \<and> user_versions db1 = [Some 1, Some 7])
   \<and> (\<exists>db2. delete_nodes 2 sample_db_owned = Inr db2
      \<and> user_node_ids sample_db_owned = [Some 2] \<and> user_node_ids db2 = [None]
      \<and> user_versions sample_db_owned = [Some 1] \<and> user_versions db2 = [Some 1])"
proof -
  let ?ups = "[(200, sample_user\<lparr> usr_status := In \<rparr>),
         (210, sample_user\<lparr> usr_status := Out, usr_version := Some 1 \<rparr>),
         (220, sample_user\<lparr> usr_version := None \<rparr>)]"
  let ?NEW = "sample_v1_user\<lparr> v1_version := Some 40 \<rparr>"
  obtain row' where h1: "apply_updates sample_user ?ups = Inr row'"
    by (simp add: users_row_update_def trg_users_before_update_def sample_defs sql_defs)
  obtain N where h2: "users_v1_row_update 200 sample_v1_user ?NEW = Inr N"
    by (simp add: users_v1_row_update_def users_version_update_def sample_defs sql_defs)
  obtain db1 where h3: "insert_users sample_versioned_user sample_db = Inr db1"
    by (simp add: statement_defs sample_defs sql_defs)
  obtain db2 where h4: "delete_nodes 2 sample_db_owned = Inr db2"
    by (simp add: statement_defs sample_defs sql_defs)
  have ne: "?ups \<noteq> []" by simp
  note inst = users_version_counts_update_statements
    [where row = sample_user and ups = "?ups" and row' = row' and now = 200
       and OLD = sample_v1_user and NEW = "?NEW" and N = N
       and r = sample_versioned_user and db = sample_db and ?db1.0 = db1
       and n = 2 and ?db2.0 = db2]
  from inst h1 ne have p1: "usr_version row' = Some 4 \<and> usr_last_sync_at row' = Some 220"
    by (simp add: sample_defs sql_defs)
  from inst h2 have p2: "v1_version N = Some 2 \<and> v1_last_sync_at N = Some 200"
    by (auto simp: sample_defs)
  from inst h3 have p3: "user_versions db1 = [Some 1, Some 7]"
    by (auto simp: user_versions_def sample_defs)
  note inst' = users_version_counts_update_statements
    [where db = sample_db_owned and n = 2 and ?db2.0 = db2]
  from inst' h4 have p4: "user_node_ids db2 = [None] \<and> user_versions db2 = [Some 1]"
    by (simp add: user_node_ids_def user_versions_def sample_defs)
  have p5: "usr_version sample_user = Some 1 \<and> user_node_ids sample_db_owned = [Some 2]
      \<and> user_versions sample_db_owned = [Some 1]"
    by (simp add: user_node_ids_def user_versions_def sample_defs)
  from h1 h2 h3 h4 p1 p2 p3 p4 p5 show ?thesis by blast
qed

text \<open>
  C3 as stated fails: on the sample node, a user inserted with version 7 holds version 7
  after its one mutation; and deleting node 2 changes the row of the user that node 2
  owns (node_id from 2 to NULL) while its version stays 1.
\<close>

theorem users_version_is_not_mutation_count:
  "user_versions sample_db = [Some 1]
   \<and> map_sum id user_versions (execute 200 (InsertUsers sample_versioned_user) sample_db)
       = Inr [Some 1, Some 7]
   \<and> user_node_ids sample_db_owned = [Some 2]
   \<and> user_versions sample_db_owned = [Some 1]
   \<and> map_sum id user_node_ids (delete_nodes 2 sample_db_owned) = Inr [None]
   \<and> map_sum id user_versions (delete_nodes 2 sample_db_owned) = Inr [Some 1]"
  by (simp add: user_versions_def user_node_ids_def statement_defs sample_defs sql_defs)

section \<open>The identity partitioner\<close>

lemma next_auto_increment_mod:
  "next_auto_increment N i c mod N = i mod N"
  by (simp add: next_auto_increment_def)

lemma next_auto_increment_greater:
  assumes "0 < N"
  shows "c < next_auto_increment N i c"
proof (cases "c < i")
  case True
  then show ?thesis by (simp add: next_auto_increment_def)
next
  case False
  have "(c - i) mod N < N" using assms by simp
  moreover have "(c - i) div N * N + (c - i) mod N = c - i" by simp
  ultimately have "c - i < (c - i) div N * N + N" by linarith
  with False show ?thesis by (simp add: next_auto_increment_def algebra_simps)
qed

lemma ordinals_differ_mod:
  fixes i j N :: int
  assumes "1 \<le> i" "i \<le> N" "1 \<le> j" "j \<le> N" "i \<noteq> j"
  shows "i mod N \<noteq> j mod N"
proof -
  have "i mod N = (if i = N then 0 else i)" using assms by simp
  moreover have "j mod N = (if j = N then 0 else j)" using assms by simp
  ultimately show ?thesis using assms by auto
qed

text \<open>
  C2: with N nodes, every key that the node of ordinal i (1 \<le> i \<le> N) generates is
  congruent to i modulo N (and lies above the keys already in the table), so the keys
  generated by two different nodes never coincide; with N = 2, node 1 generates odd keys
  and node 2 even ones.
\<close>

theorem generated_keys_partition:
  assumes "1 \<le> i" and "i \<le> N" and "1 \<le> j" and "j \<le> N" and "i \<noteq> j"
  shows "next_auto_increment N i c mod N = i mod N
         \<and> c < next_auto_increment N i c
         \<and> {next_auto_increment N i a | a. True} \<inter> {next_auto_increment N j b | b. True} = {}"
proof -
  have "next_auto_increment N i a \<noteq> next_auto_increment N j b" for a b
  proof
    assume "next_auto_increment N i a = next_auto_increment N j b"
    then have "next_auto_increment N i a mod N = next_auto_increment N j b mod N" by simp
    then have "i mod N = j mod N" by (simp only: next_auto_increment_mod)
    with ordinals_differ_mod [OF assms] show False by simp
  qed
  then have "{next_auto_increment N i a | a. True} \<inter> {next_auto_increment N j b | b. True} = {}"
    by auto
  moreover have "0 < N" using assms by simp
  ultimately show ?thesis
    by (simp add: next_auto_increment_mod next_auto_increment_greater)
qed

theorem generated_keys_partition_witness:
  "next_auto_increment 2 1 0 = 1 \<and> next_auto_increment 2 1 1 = 3 \<and> next_auto_increment 2 1 4 = 5
   \<and> next_auto_increment 2 2 0 = 2 \<and> next_auto_increment 2 2 2 = 4 \<and> next_auto_increment 2 2 5 = 6
   \<and> next_auto_increment 2 1 4 mod 2 = 1 mod 2
   \<and> {next_auto_increment 2 1 a | a. True} \<inter> {next_auto_increment 2 2 b | b. True} = {}"
  using generated_keys_partition [of 1 2 2 4]
  by (simp add: next_auto_increment_def)

section \<open>Conflict resolution\<close>

text \<open>
  C1: of two conflicting writes to one record made on different nodes, the later one
  wins, and on equal timestamps the one of the lower node ordinal; the choice does not
  depend on which of the two a node holds as its own, so both nodes pick the same winner.
\<close>

theorem conflict_resolution_deterministic:
  assumes "write_node a \<noteq> write_node b"
  shows "resolve_conflict a b = resolve_conflict b a
         \<and> (resolve_conflict a b = a \<or> resolve_conflict a b = b)
         \<and> (write_timestamp b < write_timestamp a \<longrightarrow> resolve_conflict a b = a)
         \<and> (write_timestamp a = write_timestamp b \<and> write_node a < write_node b
              \<longrightarrow> resolve_conflict a b = a)"
  using assms by (auto simp: resolve_conflict_def)

theorem conflict_resolution_deterministic_witness:
  "write_node \<lparr> write_timestamp = 300, write_node = 1, write_value = In \<rparr>
     \<noteq> write_node \<lparr> write_timestamp = 300, write_node = 2, write_value = Out \<rparr>
   \<and> resolve_conflict \<lparr> write_timestamp = 300, write_node = 1, write_value = In \<rparr>
                      \<lparr> write_timestamp = 300, write_node = 2, write_value = Out \<rparr>
     = \<lparr> write_timestamp = 300, write_node = 1, write_value = In \<rparr>
   \<and> resolve_conflict \<lparr> write_timestamp = 300, write_node = 2, write_value = Out \<rparr>
                      \<lparr> write_timestamp = 300, write_node = 1, write_value = In \<rparr>
     = \<lparr> write_timestamp = 300, write_node = 1, write_value = In \<rparr>"
proof -
  let ?a = "\<lparr> write_timestamp = 300, write_node = 1, write_value = In \<rparr>"
  let ?b = "\<lparr> write_timestamp = 300, write_node = 2, write_value = Out \<rparr>"
  have ne: "write_node ?a \<noteq> write_node ?b" by simp
  have pre: "write_timestamp ?a = write_timestamp ?b \<and> write_node ?a < write_node ?b" by simp
  note inst = conflict_resolution_deterministic [OF ne]
  from inst have same: "resolve_conflict ?a ?b = resolve_conflict ?b ?a" ..
  from inst pre have win: "resolve_conflict ?a ?b = ?a" by blast
  from same win have "resolve_conflict ?b ?a = ?a" by (simp only:)
  with ne win show ?thesis by blast
qed

section \<open>Statements on the users table\<close>

lemma insert_sync_queue_Inr:
  assumes "insert_sync_queue now (tn, rid, opn, d) db = Inr db'"
  shows "db' = db\<lparr> sync_queue := sync_queue db @
                    [\<lparr> sync_queue_id =
                         next_auto_increment (auto_increment_increment db)
                           (auto_increment_offset db) (sync_queue_auto_increment db),
                       sync_queue_table_name = tn,
                       sync_queue_record_id = rid, sync_queue_operation = opn,
                       sync_queue_data = Some d, sync_queue_created_at = Some now,
                       sync_queue_synced = Some False \<rparr>],
                  sync_queue_auto_increment :=
                    next_auto_increment (auto_increment_increment db)
                      (auto_increment_offset db) (sync_queue_auto_increment db) \<rparr>"
  using assms by (auto simp: insert_sync_queue_def Let_def split: if_splits)

lemma update_users_missing:
  "find (\<lambda>r. usr_id r = i) (users db) = None \<Longrightarrow> update_users now i sc db = Inr db"
  by (simp add: update_users_def)

lemma update_users_found:
  assumes "update_users now i sc db = Inr db'"
    and "find (\<lambda>r. usr_id r = i) (users db) = Some OLD"
  shows "db' = db\<lparr> users := map (\<lambda>r. if usr_id r = i
                          then (sc OLD)\<lparr> usr_version := Some (COALESCE (usr_version OLD) 0 + 1),
                                 usr_last_sync_at := Some now, usr_updated_at := Some now \<rparr>
                          else r) (users db),
                  sync_queue := sync_queue db @
                    [\<lparr> sync_queue_id =
                         next_auto_increment (auto_increment_increment db)
                      (auto_increment_offset db) (sync_queue_auto_increment db),
                       sync_queue_table_name = ''users'',
                       sync_queue_record_id = usr_id (sc OLD), sync_queue_operation = UPDATE,
                       sync_queue_data = Some (JObject
                          [(''id'', JInt (usr_id (sc OLD))),
                           (''name'', json_of_varchar (usr_name (sc OLD))),
                           (''rfid_tag'', JString (usr_rfid_tag (sc OLD))),
                           (''status'', JString (status_name (usr_status (sc OLD))))]),
                       sync_queue_created_at = Some now,
                       sync_queue_synced = Some False \<rparr>],
                  sync_queue_auto_increment :=
                    next_auto_increment (auto_increment_increment db)
                      (auto_increment_offset db) (sync_queue_auto_increment db) \<rparr>"
proof -
  from assms obtain N where
    step: "users_row_update now OLD (sc OLD) = Inr N" and
    ins: "insert_sync_queue now (users_sync_trigger N)
            (db\<lparr> users := map (\<lambda>r. if usr_id r = i then N else r) (users db) \<rparr>) = Inr db'"
    by (auto simp: update_users_def split: sum.splits if_splits)
  from users_row_update_Inr [OF step]
  have N: "N = (sc OLD)\<lparr> usr_version := Some (COALESCE (usr_version OLD) 0 + 1),
              usr_last_sync_at := Some now, usr_updated_at := Some now \<rparr>" by simp
  from ins have "insert_sync_queue now (''users'', usr_id N, UPDATE,
      JObject [(''id'', JInt (usr_id N)), (''name'', json_of_varchar (usr_name N)),
               (''rfid_tag'', JString (usr_rfid_tag N)),
               (''status'', JString (status_name (usr_status N)))])
            (db\<lparr> users := map (\<lambda>r. if usr_id r = i then N else r) (users db) \<rparr>) = Inr db'"
    by (simp add: users_sync_trigger_def)
  from insert_sync_queue_Inr [OF this] show ?thesis
    unfolding N by simp
qed

lemma find_Some_mem: "find P xs = Some x \<Longrightarrow> x \<in> set xs \<and> P x"
  by (induction xs) (auto split: if_splits)

text \<open>
  C9: every update of a users row stores the version of the stored row plus one (a NULL
  version counting as zero) and sets last_sync_at and updated_at to the current time,
  whatever version and timestamps the statement itself proposes: no update sets the
  version to a value of its choice.
\<close>

theorem users_update_stores_bumped_version:
  assumes "update_users now i set_clause db = Inr db'"
    and "find (\<lambda>r. usr_id r = i) (users db) = Some OLD"
  shows "\<exists>N. users db' = map (\<lambda>r. if usr_id r = i then N else r) (users db)
          \<and> N \<in> set (users db')
          \<and> usr_version N = Some (COALESCE (usr_version OLD) 0 + 1)
          \<and> usr_last_sync_at N = Some now \<and> usr_updated_at N = Some now"
proof -
  let ?N = "(set_clause OLD)\<lparr> usr_version := Some (COALESCE (usr_version OLD) 0 + 1),
                                 usr_last_sync_at := Some now, usr_updated_at := Some now \<rparr>"
  from update_users_found [OF assms]
  have u: "users db' = map (\<lambda>r. if usr_id r = i then ?N else r) (users db)" by auto
  from find_Some_mem [OF assms(2)] have "OLD \<in> set (users db)" "usr_id OLD = i" by simp_all
  then have "?N \<in> set (users db')" unfolding u by (auto simp: image_iff intro!: bexI [of _ OLD])
  with u show ?thesis by (intro exI [of _ ?N]) simp
qed

theorem users_update_stores_bumped_version_witness:
  "\<exists>db'. update_users 200 1 sample_set_clause sample_db = Inr db'
      \<and> find (\<lambda>r. usr_id r = 1) (users sample_db) = Some sample_user
      \<and> usr_version sample_user = Some 1
      \<and> (\<exists>N. users db' = [N] \<and> usr_version N = Some 2
            \<and> usr_last_sync_at N = Some 200 \<and> usr_updated_at N = Some 200)"
proof -
  obtain db' where h1: "update_users 200 1 sample_set_clause sample_db = Inr db'"
    by (simp add: statement_defs sample_defs sql_defs)
  have h2: "find (\<lambda>r. usr_id r = 1) (users sample_db) = Some sample_user"
    by (simp add: sample_defs)
  from users_update_stores_bumped_version [OF h1 h2] h1 h2 show ?thesis
    by (auto simp: sample_defs sql_defs)
qed

section \<open>The change recorder\<close>

text \<open>
  C5, as the code has it: an UPDATE of a users row appends, in the same statement that
  stores the row, exactly one entry to the change queue: table users, operation UPDATE,
  the id of the row as stored, and a snapshot of the stored row's id, name, rfid_tag and
  status (no other column). An UPDATE that matches no row changes nothing; every INSERT
  and DELETE on users and every statement on logs append nothing.
\<close>

theorem change_queue_records_user_updates:
  assumes "execute now st db = Inr db'"
  shows "case st of
           UpdateUsers i set_clause \<Rightarrow>
             (case find (\<lambda>r. usr_id r = i) (users db) of
                None \<Rightarrow> db' = db
              | Some OLD \<Rightarrow>
                  (let N = trg_users_before_update now OLD (set_clause OLD)
                   in users db' = map (\<lambda>r. if usr_id r = i then N else r) (users db)
                      \<and> sync_queue db' = sync_queue db @
                          [\<lparr> sync_queue_id =
                               next_auto_increment (auto_increment_increment db)
                                 (auto_increment_offset db) (sync_queue_auto_increment db),
                             sync_queue_table_name = ''users'',
                             sync_queue_record_id = usr_id N,
                             sync_queue_operation = UPDATE,
                             sync_queue_data = Some (JObject
                               [(''id'', JInt (usr_id N)),
                                (''name'', json_of_varchar (usr_name N)),
                                (''rfid_tag'', JString (usr_rfid_tag N)),
                                (''status'', JString (status_name (usr_status N)))]),
                             sync_queue_created_at = Some now,
                             sync_queue_synced = Some False \<rparr>]))
         | _ \<Rightarrow> sync_queue db' = sync_queue db"
proof (cases st)
  case (InsertUsers row)
  with assms show ?thesis
    by (auto simp: insert_users_def Let_def split: option.splits if_splits)
next
  case (UpdateUsers i sc)
  show ?thesis
  proof (cases "find (\<lambda>r. usr_id r = i) (users db)")
    case None
    with assms UpdateUsers show ?thesis by (simp add: update_users_missing)
  next
    case (Some OLD)
    from assms UpdateUsers have upd: "update_users now i sc db = Inr db'" by simp
    note db' = update_users_found [OF upd Some]
    have "users db' = map (\<lambda>r. if usr_id r = i
                                  then trg_users_before_update now OLD (sc OLD) else r) (users db)"
      by (subst db') (simp add: trg_users_before_update_def)
    moreover have "sync_queue db' = sync_queue db @
                          [\<lparr> sync_queue_id =
                               next_auto_increment (auto_increment_increment db)
                                 (auto_increment_offset db) (sync_queue_auto_increment db),
                             sync_queue_table_name = ''users'',
                             sync_queue_record_id = usr_id (trg_users_before_update now OLD (sc OLD)),
                             sync_queue_operation = UPDATE,
                             sync_queue_data = Some (JObject
                               [(''id'', JInt (usr_id (trg_users_before_update now OLD (sc OLD)))),
                                (''name'', json_of_varchar
                                   (usr_name (trg_users_before_update now OLD (sc OLD)))),
                                (''rfid_tag'', JString
                                   (usr_rfid_tag (trg_users_before_update now OLD (sc OLD)))),
                                (''status'', JString (status_name
                                   (usr_status (trg_users_before_update now OLD (sc OLD)))))]),
                             sync_queue_created_at = Some now,
                             sync_queue_synced = Some False \<rparr>]"
      by (subst db') (simp add: trg_users_before_update_def)
    ultimately show ?thesis using UpdateUsers Some
      by (simp only: statement.case option.case Let_def)
  qed
next
  case (DeleteUsers i)
  with assms show ?thesis by (auto simp: delete_users_def)
next
  case (InsertLogs row)
  with assms show ?thesis
    by (auto simp: insert_logs_def Let_def split: option.splits if_splits)
next
  case (UpdateLogs i sc)
  with assms show ?thesis
    by (auto simp: update_logs_def Let_def split: option.splits if_splits)
next
  case (DeleteLogs i)
  with assms show ?thesis
    by (auto simp: delete_logs_def split: if_splits)
qed

theorem change_queue_records_user_updates_witness:
  "\<exists>db' e. execute 200 (UpdateUsers 3 sample_set_clause) sample_db_two_users = Inr db'
      \<and> find (\<lambda>r. usr_id r = 3) (users sample_db_two_users)
           = Some (sample_new_user\<lparr> usr_id := 3 \<rparr>)
      \<and> sync_queue sample_db_two_users = [] \<and> sync_queue db' = [e]
      \<and> sync_queue_id e = 1
      \<and> sync_queue_record_id e = 3
      \<and> sync_queue_data e = Some (JObject [(''id'', JInt 3), (''name'', JString ''Nimali Silva''),
                                        (''rfid_tag'', JString ''2886066914''),
                                        (''status'', JString ''In'')])
      \<and> map usr_status (users db') = [IDLE, In]
      \<and> map usr_version (users db') = [Some 1, Some 2]"
proof -
  obtain db' where h: "execute 200 (UpdateUsers 3 sample_set_clause) sample_db_two_users = Inr db'"
    by (simp add: statement_defs sample_defs sql_defs)
  have f: "find (\<lambda>r. usr_id r = 3) (users sample_db_two_users)
             = Some (sample_new_user\<lparr> usr_id := 3 \<rparr>)"
    by (simp add: sample_defs)
  from change_queue_records_user_updates [OF h] f
  have "users db' = map (\<lambda>r. if usr_id r = 3
            then trg_users_before_update 200 (sample_new_user\<lparr> usr_id := 3 \<rparr>)
                   (sample_set_clause (sample_new_user\<lparr> usr_id := 3 \<rparr>)) else r)
          (users sample_db_two_users)"
    and "\<exists>e. sync_queue db' = sync_queue sample_db_two_users @ [e]
           \<and> sync_queue_id e = 1 \<and> sync_queue_record_id e = 3
           \<and> sync_queue_data e = Some (JObject [(''id'', JInt 3), (''name'', JString ''Nimali Silva''),
                                        (''rfid_tag'', JString ''2886066914''),
                                        (''status'', JString ''In'')])"
    by (simp_all add: Let_def trg_users_before_update_def json_of_varchar_def sample_defs sql_defs)
  then show ?thesis using h f
    by (auto simp: trg_users_before_update_def sample_defs sql_defs)
qed

text \<open>
  C5 as stated fails: inserting a user, deleting a user and inserting a log row on the
  sample node each leave the change queue empty; and an update that changes the nic of
  the sample user records the same snapshot as one that changes nothing, so the
  snapshot does not tell the receiving node what the update did.
\<close>

theorem change_queue_misses_inserts_and_deletes:
  "map_sum id sync_queue (execute 200 (InsertUsers sample_new_user) sample_db) = Inr []
   \<and> map_sum id sync_queue (execute 200 (DeleteUsers 1) sample_db) = Inr []
   \<and> map_sum id sync_queue (execute 200 (InsertLogs sample_new_log) sample_db) = Inr []
   \<and> sync_queue sample_db = []
   \<and> map_sum id user_nics (execute 200 (UpdateUsers 1 sample_nic_set_clause) sample_db)
       = Inr [Some ''000000000V'']
   \<and> map_sum id user_nics (execute 200 (UpdateUsers 1 sample_keep_set_clause) sample_db)
       = Inr [Some ''900000000V'']
   \<and> map_sum id queue_data (execute 200 (UpdateUsers 1 sample_nic_set_clause) sample_db)
       = map_sum id queue_data (execute 200 (UpdateUsers 1 sample_keep_set_clause) sample_db)"
  by (simp add: statement_defs sample_defs sql_defs queue_data_def user_nics_def
      sample_nic_set_clause_def sample_keep_set_clause_def)

section \<open>Log rows\<close>





section \<open>The sync cycle\<close>

lemma send_all_sent:
  "send_all send peers t d = (sent, err) \<Longrightarrow>
     list_all (\<lambda>(p, t', d'). t' = t \<and> d' = d) sent
     \<and> (\<exists>rest. peers = map fst sent @ rest)
     \<and> (err = None \<longrightarrow> map fst sent = peers)"
proof (induction peers arbitrary: sent err)
  case Nil
  then show ?case by simp
next
  case (Cons n peers)
  show ?case
  proof (cases "send n t d")
    case (Some msg)
    from Cons.prems have "sent = []" "err = Some msg" by (simp_all add: Some)
    then show ?thesis by simp
  next
    case None
    obtain sent' e' where rest: "send_all send peers t d = (sent', e')"
      by (cases "send_all send peers t d")
    with Cons.prems None have "sent = (n, t, d) # sent'" "err = e'" by simp_all
    with Cons.IH [OF rest] show ?thesis by simp
  qed
qed

lemma send_all_error:
  "send_all send peers t d = (sent, err) \<Longrightarrow>
     (err = None) = list_all (\<lambda>n. send n t d = None) peers"
proof (induction peers arbitrary: sent err)
  case Nil
  then show ?case by simp
next
  case (Cons n peers)
  show ?case
  proof (cases "send n t d")
    case (Some msg)
    from Cons.prems have "err = Some msg" by (simp add: Some)
    with Some show ?thesis by simp
  next
    case None
    obtain sent' e' where rest: "send_all send peers t d = (sent', e')"
      by (cases "send_all send peers t d")
    with Cons.prems None have "err = e'" by simp
    with Cons.IH [OF rest] None show ?thesis by simp
  qed
qed

lemma sync_table_users_one_position:
  assumes "filter (\<lambda>m. sync_metadata_table_name m = ''users'') (sync_metadata db) = [m0]"
  shows "sync_table send peers now ''users'' db =
     (let local_data = filter (\<lambda>r. sql_true (sql_gt (usr_last_sync_at r)
                                  (Some (sync_metadata_last_sync_timestamp m0)))) (users db)
      in case send_all send peers ''users'' local_data of
           (sent, Some err) \<Rightarrow> \<lparr> so_sent = sent, so_db = db, so_error = Some (SendFailed err) \<rparr>
         | (sent, None) \<Rightarrow>
             \<lparr> so_sent = sent,
               so_db = db\<lparr> sync_metadata :=
                         map (\<lambda>m. if sync_metadata_table_name m = ''users''
                                   then m\<lparr> sync_metadata_last_sync_timestamp := now \<rparr>
                                   else m)
                           (sync_metadata db) \<rparr>,
               so_error = None \<rparr>)"
  using assms by (simp add: sync_table_def)

lemma sql_gt_Some:
  "sql_true (sql_gt x (Some p)) = (\<exists>t. x = Some t \<and> p < t)"
  by (cases x) (simp_all add: sql_true_def sql_gt_def)

text \<open>
  C6, as the code has it: when sync_metadata holds one row for table users, a cycle
  selects the local users rows whose last_sync_at is later than the position of that row
  (found by table name alone, whatever its node), sends that one selection to every
  remote node in turn, and, when no send fails, sets the position of every sync_metadata
  row of the table to the current time; the cycle ends without error exactly when every
  send returns. Neither step looks at the peer.
\<close>

theorem sync_table_keyed_by_table_only:
  assumes "filter (\<lambda>m. sync_metadata_table_name m = ''users'') (sync_metadata db) = [m0]"
  shows "let out = sync_table send_to_node remote_nodes now ''users'' db;
             selection = filter (\<lambda>r. \<exists>t. usr_last_sync_at r = Some t
                                   \<and> sync_metadata_last_sync_timestamp m0 < t) (users db)
         in list_all (\<lambda>(p, t, d). t = ''users'' \<and> d = selection) (so_sent out)
            \<and> (\<exists>rest. remote_nodes = map fst (so_sent out) @ rest)
            \<and> (so_error out = None)
                = list_all (\<lambda>n. send_to_node n ''users'' selection = None) remote_nodes
            \<and> (so_error out = None \<longrightarrow>
                 map fst (so_sent out) = remote_nodes
                 \<and> list_all2 (\<lambda>m m'. m' = (if sync_metadata_table_name m = ''users''
                                          then m\<lparr> sync_metadata_last_sync_timestamp := now \<rparr>
                                          else m))
                     (sync_metadata db) (sync_metadata (so_db out)))"
proof -
  let ?sel = "filter (\<lambda>r. sql_true (sql_gt (usr_last_sync_at r)
                                  (Some (sync_metadata_last_sync_timestamp m0)))) (users db)"
  obtain sent err where sa: "send_all send_to_node remote_nodes ''users'' ?sel = (sent, err)"
    by (cases "send_all send_to_node remote_nodes ''users'' ?sel")
  note facts = send_all_sent [OF sa] send_all_error [OF sa]
  show ?thesis
  proof (cases err)
    case None
    with sa facts show ?thesis
      by (simp add: sync_table_users_one_position [OF assms] Let_def sql_gt_Some
          list_all2_map2 list_all2_same)
  next
    case (Some msg)
    with sa facts show ?thesis
      by (simp add: sync_table_users_one_position [OF assms] Let_def sql_gt_Some)
  qed
qed

text \<open>
  C8, as the code has it: a cycle never writes sync_status or error_message, and never
  touches the change queue. When an error ends the cycle (a send that raises, or a
  failing query), the whole database, sync_metadata included, is left as it was: no
  FAILED status and no error detail are recorded.
\<close>

theorem sync_table_records_no_failure:
  "let out = sync_table send_to_node remote_nodes now table_name db
   in sync_queue (so_db out) = sync_queue db
      \<and> map sync_metadata_sync_status (sync_metadata (so_db out))
          = map sync_metadata_sync_status (sync_metadata db)
      \<and> map sync_metadata_error_message (sync_metadata (so_db out))
          = map sync_metadata_error_message (sync_metadata db)
      \<and> (so_error out \<noteq> None \<longrightarrow> so_db out = db)"
  by (auto simp: sync_table_def Let_def comp_def split: sum.splits option.splits prod.splits
      intro!: map_cong)

lemmas sync_defs = sync_table_def Let_def send_delivers_def send_unreachable_def sql_true_def sql_gt_def
  spec_keyed_by_peer_and_table_def spec_pull_selection_def spec_sync_position_def

text \<open>
  C6 as stated fails: on the sample node, whose only sync_metadata row belongs to node 1,
  a cycle with peer 2 sends the rows newer than the position of node 1 although no
  position is recorded for the pair (2, users), and then moves the position of node 1.
\<close>

theorem sync_table_not_keyed_by_peer:
  "\<not> spec_keyed_by_peer_and_table sample_db
        (sync_table send_delivers [2] 300 ''users'' sample_db)
   \<and> so_sent (sync_table send_delivers [2] 300 ''users'' sample_db)
       = [(2, ''users'', [sample_user])]
   \<and> spec_sync_position sample_db 2 ''users'' = []
   \<and> sync_metadata (so_db (sync_table send_delivers [2] 300 ''users'' sample_db))
       = [sample_metadata\<lparr> sync_metadata_last_sync_timestamp := 300 \<rparr>]
   \<and> sync_metadata_node_id sample_metadata = 1"
  by (simp add: sync_defs sample_defs)

text \<open>
  C8 as stated fails: after a cycle whose peer is unreachable, the sync_metadata row still
  has status SUCCESS and no error message.
\<close>

theorem sync_table_failure_leaves_metadata:
  "so_error (sync_table send_unreachable [2] 300 ''users'' sample_db)
     = Some (SendFailed ''peer unreachable'')
   \<and> sync_metadata (so_db (sync_table send_unreachable [2] 300 ''users'' sample_db))
       = [sample_metadata]
   \<and> sync_metadata_sync_status sample_metadata = SUCCESS
   \<and> sync_metadata_error_message sample_metadata = None"
  by (simp add: sync_defs sample_defs)

theorem sync_table_keyed_by_table_only_witness:
  "filter (\<lambda>m. sync_metadata_table_name m = ''users'') (sync_metadata sample_db) = [sample_metadata]
   \<and> so_sent (sync_table send_delivers [2, 3] 300 ''users'' sample_db)
       = [(2, ''users'', [sample_user]), (3, ''users'', [sample_user])]
   \<and> sync_metadata (so_db (sync_table send_delivers [2, 3] 300 ''users'' sample_db))
       = [sample_metadata\<lparr> sync_metadata_last_sync_timestamp := 300 \<rparr>]"
proof -
  have h: "filter (\<lambda>m. sync_metadata_table_name m = ''users'') (sync_metadata sample_db)
             = [sample_metadata]"
    by (simp add: sample_defs)
  have e: "so_error (sync_table send_delivers [2, 3] 300 ''users'' sample_db) = None"
    by (simp add: sync_defs sample_defs)
  have s: "filter (\<lambda>r. \<exists>t. usr_last_sync_at r = Some t
              \<and> sync_metadata_last_sync_timestamp sample_metadata < t) (users sample_db)
            = [sample_user]"
    by (simp add: sample_defs)
  from sync_table_keyed_by_table_only [OF h, of send_delivers "[2, 3]" 300]
  show ?thesis using h
    unfolding Let_def s e
    by (auto simp: sample_defs list_all2_Cons1 list_all_iff map_eq_Cons_conv)
qed

theorem sync_table_records_no_failure_witness:
  "so_error (sync_table send_unreachable [2] 300 ''users'' sample_db) \<noteq> None
   \<and> so_db (sync_table send_unreachable [2] 300 ''users'' sample_db) = sample_db
   \<and> so_error (sync_table send_delivers [2] 300 ''users'' sample_db) = None
   \<and> map sync_metadata_sync_status
        (sync_metadata (so_db (sync_table send_delivers [2] 300 ''users'' sample_db))) = [SUCCESS]"
proof -
  have e: "so_error (sync_table send_unreachable [2] 300 ''users'' sample_db) \<noteq> None"
    by (simp add: sync_defs sample_defs)
  have e2: "so_error (sync_table send_delivers [2] 300 ''users'' sample_db) = None"
    by (simp add: sync_defs sample_defs)
  have st: "map sync_metadata_sync_status (sync_metadata sample_db) = [SUCCESS]"
    by (simp add: sample_defs)
  from sync_table_records_no_failure [of send_unreachable "[2]" 300 "''users''" sample_db]
    sync_table_records_no_failure [of send_delivers "[2]" 300 "''users''" sample_db]
    e e2 st
  show ?thesis unfolding Let_def by simp
qed

end
